theory Spec2Isabelle
  imports Complex_Main "HOL-Library.Word" "HOL-Library.Option_ord"
begin

section \<open>Data model\<close>

text \<open>
  The transaction table of \<^verbatim>\<open>DataProcessor.py\<close> is a Polars frame; a frame is modelled as
  the list of its rows, a nullable column as an \<open>option\<close> field. \<^verbatim>\<open>Quantity\<close> is an Int64
  column (a 64-bit word, read signed); \<^verbatim>\<open>UnitPrice\<close> and \<^verbatim>\<open>Revenue\<close> are Float64 columns,
  modelled by exact rationals: rounding error, NaN, infinities and signed zero are outside
  the model.

  A calendar date is its proleptic Gregorian ordinal (\<^verbatim>\<open>date.toordinal()\<close>, day 1 is
  0001-01-01); a \<^verbatim>\<open>datetime\<close> is the number of microseconds since the midnight that starts
  ordinal 0, so that the order of the integers is the order of the instants.
\<close>

type_synonym date = int
type_synonym datetime = int

record raw_row =
  InvoiceNo :: "string option"
  StockCode :: "string option"
  Description :: "string option"
  Quantity :: "64 word option"
  InvoiceDate :: "string option"
  UnitPrice :: "rat option"
  CustomerID :: "string option"
  Country :: "string option"

record dated_row = raw_row +
  DateTime :: "datetime option"
  Date :: "date option"

record row = dated_row +
  Revenue :: "rat option"

type_synonym frame = "row list"

section \<open>Dates and \<^verbatim>\<open>datetime.strptime\<close>\<close>

definition usec_per_day :: int where
  "usec_per_day = 86400000000"

definition is_leap :: "int \<Rightarrow> bool" where
  "is_leap y = (y mod 4 = 0 \<and> (y mod 100 \<noteq> 0 \<or> y mod 400 = 0))"

definition days_in_month :: "int \<Rightarrow> int \<Rightarrow> int" where
  "days_in_month y m =
     (if m = 2 then (if is_leap y then 29 else 28)
      else if m = 4 \<or> m = 6 \<or> m = 9 \<or> m = 11 then 30 else 31)"

definition days_before_year :: "int \<Rightarrow> int" where
  "days_before_year year = (let y = year - 1 in y * 365 + y div 4 - y div 100 + y div 400)"

definition days_before_month :: "int \<Rightarrow> int \<Rightarrow> int" where
  "days_before_month y m =
     sum_list (map (days_in_month y) [1..m - 1])"

definition ymd2ord :: "int \<Rightarrow> int \<Rightarrow> int \<Rightarrow> date" where
  "ymd2ord y m d = days_before_year y + days_before_month y m + d"

text \<open>
  The constructor \<^verbatim>\<open>datetime(year, month, day, hour, minute, second)\<close>: a \<^verbatim>\<open>ValueError\<close>
  (here \<open>None\<close>) when a field is out of range.
\<close>

definition mk_datetime :: "int \<Rightarrow> int \<Rightarrow> int \<Rightarrow> int \<Rightarrow> int \<Rightarrow> int \<Rightarrow> datetime option" where
  "mk_datetime y m d hh mm ss =
     (if 1 \<le> y \<and> y \<le> 9999 \<and> 1 \<le> m \<and> m \<le> 12 \<and> 1 \<le> d \<and> d \<le> days_in_month y m
         \<and> 0 \<le> hh \<and> hh \<le> 23 \<and> 0 \<le> mm \<and> mm \<le> 59 \<and> 0 \<le> ss \<and> ss \<le> 59
      then Some (ymd2ord y m d * usec_per_day + ((hh * 60 + mm) * 60 + ss) * 1000000)
      else None)"

text \<open>\<^verbatim>\<open>d.date()\<close>: the calendar date of an instant.\<close>

definition date_of :: "datetime \<Rightarrow> date" where
  "date_of t = t div usec_per_day"

text \<open>
  \<^verbatim>\<open>datetime.strptime\<close> is the standard library's, not this repository's. The functions of
  the store that call it take it as a parameter \<open>sp\<close> (value, then format; \<open>None\<close> when
  it raises). \<open>strptime\<close> below is a model of it for the directives the two formats of
  the source use (\<^verbatim>\<open>%Y %m %d %H %M %S\<close>), over ASCII: the format is turned into a
  pattern, each directive an ordered choice of character-class sequences, a run of
  white space one or more white-space characters; the pattern is matched at the start
  of the value with backtracking, the whole value must be consumed, and the fields must
  form a valid \<^verbatim>\<open>datetime\<close>.
\<close>

datatype tok = Field char "string list list" | Space | SpaceStar | Lit char

definition digits :: string where
  "digits = ''0123456789''"

definition nonzero :: string where
  "nonzero = ''123456789''"

definition directive :: "char \<Rightarrow> string list list option" where
  "directive c =
     (if c = CHR ''d'' then Some [[''3'', ''01''], [''12'', digits], [''0'', nonzero], [nonzero], ['' '', nonzero]]
      else if c = CHR ''H'' then Some [[''2'', ''0123''], [''01'', digits], [digits]]
      else if c = CHR ''m'' then Some [[''1'', ''012''], [''0'', nonzero], [nonzero]]
      else if c = CHR ''M'' then Some [[''012345'', digits], [digits]]
      else if c = CHR ''S'' then Some [[''6'', ''01''], [''012345'', digits], [digits]]
      else if c = CHR ''Y'' then Some [[digits, digits, digits, digits]]
      else None)"

definition is_space :: "char \<Rightarrow> bool" where
  "is_space c = (c \<in> set [CHR '' '', CHR 0x09, CHR 0x0A, CHR 0x0B, CHR 0x0C, CHR 0x0D,
                           CHR 0x1C, CHR 0x1D, CHR 0x1E, CHR 0x1F])"

fun compile :: "string \<Rightarrow> tok list option" where
  "compile [] = Some []"
| "compile [c] = (if c = CHR ''%'' then None else if is_space c then Some [Space] else Some [Lit c])"
| "compile (c # e # fs) =
     (if c = CHR ''%'' then
        (case directive e of None \<Rightarrow> None
         | Some alts \<Rightarrow> map_option ((#) (Field e alts)) (compile fs))
      else if is_space c then
        (if is_space e then compile (e # fs) else map_option ((#) Space) (compile (e # fs)))
      else map_option ((#) (Lit c)) (compile (e # fs)))"

fun match_seq :: "string list \<Rightarrow> string \<Rightarrow> (string \<times> string) option" where
  "match_seq [] s = Some ([], s)"
| "match_seq (cls # clss) [] = None"
| "match_seq (cls # clss) (x # s) =
     (if x \<in> set cls
      then map_option (\<lambda>(v, r). (x # v, r)) (match_seq clss s)
      else None)"

text \<open>
  Matching at the start of the value, in the order a backtracking matcher tries: the
  alternatives of a field from left to right, white space greedily (\<open>Space\<close> is one
  white-space character followed by \<open>SpaceStar\<close>, any number of them, longest first).
  The result is the fields found and the unread rest of the value.
\<close>

fun tok_weight :: "tok \<Rightarrow> nat" where
  "tok_weight (Field c alts) = Suc (length alts)"
| "tok_weight Space = 2"
| "tok_weight SpaceStar = 1"
| "tok_weight (Lit c) = 1"

function re_match :: "tok list \<Rightarrow> string \<Rightarrow> ((char \<times> string) list \<times> string) option" where
  "re_match [] s = Some ([], s)"
| "re_match (Lit c # ts) [] = None"
| "re_match (Lit c # ts) (x # r) = (if x = c then re_match ts r else None)"
| "re_match (Space # ts) [] = None"
| "re_match (Space # ts) (x # r) = (if is_space x then re_match (SpaceStar # ts) r else None)"
| "re_match (SpaceStar # ts) [] = re_match ts []"
| "re_match (SpaceStar # ts) (x # r) =
     (if is_space x
      then (case re_match (SpaceStar # ts) r of Some y \<Rightarrow> Some y | None \<Rightarrow> re_match ts (x # r))
      else re_match ts (x # r))"
| "re_match (Field c [] # ts) s = None"
| "re_match (Field c (alt # alts) # ts) s =
     (case match_seq alt s of
        None \<Rightarrow> re_match (Field c alts # ts) s
      | Some (v, r) \<Rightarrow>
          (case re_match ts r of
             Some (gs, e) \<Rightarrow> Some ((c, v) # gs, e)
           | None \<Rightarrow> re_match (Field c alts # ts) s))"
  by pat_completeness auto
termination
  by (relation "inv_image (less_than <*lex*> less_than)
        (\<lambda>(ts, s). (sum_list (map tok_weight ts), length s))") auto

definition digit_val :: "char \<Rightarrow> int" where
  "digit_val c = int (of_char c) - 48"

definition int_of_digits :: "string \<Rightarrow> int" where
  "int_of_digits s = foldl (\<lambda>a c. 10 * a + digit_val c) 0 (filter (\<lambda>c. c \<noteq> CHR '' '') s)"

text \<open>A directive the format lacks keeps the default of \<^verbatim>\<open>_strptime\<close>.\<close>

definition group :: "(char \<times> string) list \<Rightarrow> char \<Rightarrow> int \<Rightarrow> int" where
  "group gs c dflt = (case map_of (rev gs) c of None \<Rightarrow> dflt | Some v \<Rightarrow> int_of_digits v)"

definition strptime :: "string \<Rightarrow> string \<Rightarrow> datetime option" where
  "strptime val fmt =
     (case compile fmt of None \<Rightarrow> None
      | Some ts \<Rightarrow>
         (case re_match ts val of None \<Rightarrow> None
          | Some (gs, rest) \<Rightarrow>
              if rest \<noteq> [] then None
              else mk_datetime (group gs CHR ''Y'' 1900) (group gs CHR ''m'' 1) (group gs CHR ''d'' 1)
                     (group gs CHR ''H'' 0) (group gs CHR ''M'' 0) (group gs CHR ''S'' 0)))"

section \<open>Load: \<^verbatim>\<open>DataProcessor._read_csv\<close>\<close>

text \<open>
  \<^verbatim>\<open>pl.scan_csv(..., ignore_errors=True)\<close> is the library's reader: its result, the frame of
  the file's rows with a null wherever a field is empty or does not parse, is the input
  \<open>scanned\<close> of the model.
\<close>

definition no_nulls :: "raw_row \<Rightarrow> bool" where
  "no_nulls w = (InvoiceNo w \<noteq> None \<and> StockCode w \<noteq> None \<and> Description w \<noteq> None
     \<and> Quantity w \<noteq> None \<and> InvoiceDate w \<noteq> None \<and> UnitPrice w \<noteq> None
     \<and> CustomerID w \<noteq> None \<and> Country w \<noteq> None)"

definition drop_nulls :: "raw_row list \<Rightarrow> raw_row list" where
  "drop_nulls ws = filter no_nulls ws"

definition formats :: "string list" where
  "formats = [''%m/%d/%Y %H:%M'', ''%Y-%m-%d %H:%M:%S'']"

text \<open>The inner loop: the first format that parses wins, and ends the loop.\<close>

fun try_formats :: "(string \<Rightarrow> string \<Rightarrow> datetime option) \<Rightarrow> string \<Rightarrow> string list \<Rightarrow> datetime option" where
  "try_formats sp val [] = None"
| "try_formats sp val (fmt # fmts) =
     (case sp val fmt of Some dt \<Rightarrow> Some dt | None \<Rightarrow> try_formats sp val fmts)"

text \<open>A null value makes \<^verbatim>\<open>strptime\<close> raise \<^verbatim>\<open>TypeError\<close>, which the bare \<^verbatim>\<open>except\<close> swallows.\<close>

definition parse_date :: "(string \<Rightarrow> string \<Rightarrow> datetime option) \<Rightarrow> string option \<Rightarrow> datetime option" where
  "parse_date sp v = (case v of None \<Rightarrow> None | Some val \<Rightarrow> try_formats sp val formats)"

type_synonym dates_row = "string option \<times> datetime option \<times> date option"

definition dates_df :: "(string \<Rightarrow> string \<Rightarrow> datetime option) \<Rightarrow> string option list \<Rightarrow> dates_row list" where
  "dates_df sp invoice_dates =
     (let parsed_dates = map (parse_date sp) invoice_dates
      in zip invoice_dates (zip parsed_dates (map (map_option date_of) parsed_dates)))"

definition with_dates :: "raw_row \<Rightarrow> datetime option \<Rightarrow> date option \<Rightarrow> dated_row" where
  "with_dates w dt d =
     \<lparr>InvoiceNo = InvoiceNo w, StockCode = StockCode w, Description = Description w,
      Quantity = Quantity w, InvoiceDate = InvoiceDate w, UnitPrice = UnitPrice w,
      CustomerID = CustomerID w, Country = Country w, DateTime = dt, Date = d\<rparr>"

text \<open>
  \<^verbatim>\<open>join(..., on="InvoiceDate", how="left")\<close>: every left row is paired with every right row
  of the same key (a null key matches nothing); a left row without a partner is kept once,
  with nulls.
\<close>

definition left_join :: "raw_row list \<Rightarrow> dates_row list \<Rightarrow> dated_row list" where
  "left_join ls ds =
     concat (map (\<lambda>l.
       case filter (\<lambda>d. InvoiceDate l \<noteq> None \<and> fst d = InvoiceDate l) ds of
         [] \<Rightarrow> [with_dates l None None]
       | ms \<Rightarrow> map (\<lambda>(k, dt, d). with_dates l dt d) ms) ls)"

text \<open>Int64 times Float64 is Float64; null when either factor is null.\<close>

definition mul_revenue :: "64 word option \<Rightarrow> rat option \<Rightarrow> rat option" where
  "mul_revenue q p =
     (case q of None \<Rightarrow> None
      | Some n \<Rightarrow> (case p of None \<Rightarrow> None | Some x \<Rightarrow> Some (of_int (sint n) * x)))"

definition with_revenue :: "dated_row \<Rightarrow> row" where
  "with_revenue w =
     \<lparr>InvoiceNo = InvoiceNo w, StockCode = StockCode w, Description = Description w,
      Quantity = Quantity w, InvoiceDate = InvoiceDate w, UnitPrice = UnitPrice w,
      CustomerID = CustomerID w, Country = Country w, DateTime = DateTime w, Date = Date w,
      Revenue = mul_revenue (Quantity w) (UnitPrice w)\<rparr>"

definition read_csv :: "(string \<Rightarrow> string \<Rightarrow> datetime option) \<Rightarrow> raw_row list \<Rightarrow> frame" where
  "read_csv sp scanned =
     (let df_scan = drop_nulls scanned;
          invoice_dates = map InvoiceDate df_scan;
          df_lazy = left_join df_scan (dates_df sp invoice_dates)
      in map with_revenue df_lazy)"

section \<open>Returns and sales\<close>

definition starts_with :: "string \<Rightarrow> string \<Rightarrow> bool" where
  "starts_with p s = (take (length p) s = p)"

text \<open>
  A filter keeps the rows whose predicate is true; on a null the predicate is null and
  the row goes, for \<^verbatim>\<open>starts_with("C")\<close> and for its negation alike.
\<close>

definition is_return :: "row \<Rightarrow> bool" where
  "is_return r = (case InvoiceNo r of None \<Rightarrow> False | Some s \<Rightarrow> starts_with ''C'' s)"

definition not_return :: "row \<Rightarrow> bool" where
  "not_return r = (case InvoiceNo r of None \<Rightarrow> False | Some s \<Rightarrow> \<not> starts_with ''C'' s)"

text \<open>\<^verbatim>\<open>str.replace("^C", "")\<close>: the pattern is anchored, so only a leading \<^verbatim>\<open>C\<close> goes.\<close>

definition replace_C :: "string \<Rightarrow> string" where
  "replace_C s = (case s of [] \<Rightarrow> [] | c # t \<Rightarrow> if c = CHR ''C'' then t else s)"

text \<open>A row of the returns set: \<^verbatim>\<open>OriginalInvoiceNo\<close>, \<^verbatim>\<open>StockCode\<close>, \<^verbatim>\<open>CustomerID\<close>.\<close>

type_synonym returns_row = "string option \<times> string option \<times> string option"

definition returns_only :: "frame \<Rightarrow> returns_row list" where
  "returns_only df =
     map (\<lambda>r. (map_option replace_C (InvoiceNo r), StockCode r, CustomerID r))
       (filter is_return df)"

text \<open>Join keys are equal when both are present and the same: a null matches nothing.\<close>

definition key_eq :: "'a option \<Rightarrow> 'a option \<Rightarrow> bool" where
  "key_eq a b = (a \<noteq> None \<and> a = b)"

definition join_match :: "row \<Rightarrow> returns_row \<Rightarrow> bool" where
  "join_match l k =
     (case k of (oi, sc, cid) \<Rightarrow>
        key_eq (InvoiceNo l) oi \<and> key_eq (StockCode l) sc \<and> key_eq (CustomerID l) cid)"

text \<open>The anti-join keeps the left rows that have no partner on the right.\<close>

definition sales_only :: "frame \<Rightarrow> frame" where
  "sales_only df =
     filter (\<lambda>l. \<not> list_ex (join_match l) (returns_only df)) (filter not_return df)"

section \<open>Aggregates\<close>

text \<open>
  \<^verbatim>\<open>group_by(key).agg(col.sum())\<close>: one row per distinct key (null is a key like any
  other), holding the sum of the column over the rows of that key; a sum skips nulls.
  Polars leaves the order of the groups open; the model lists them in the order
  \<open>remdups\<close> gives.
\<close>

definition group_by_sum :: "('r \<Rightarrow> 'k) \<Rightarrow> ('r \<Rightarrow> 'v::monoid_add) \<Rightarrow> 'r list \<Rightarrow> ('k \<times> 'v) list" where
  "group_by_sum key val rs =
     map (\<lambda>k. (k, sum_list (map val (filter (\<lambda>r. key r = k) rs)))) (remdups (map key rs))"

definition revenue_val :: "row \<Rightarrow> rat" where
  "revenue_val r = (case Revenue r of None \<Rightarrow> 0 | Some x \<Rightarrow> x)"

definition quantity_val :: "row \<Rightarrow> 64 word" where
  "quantity_val r = (case Quantity r of None \<Rightarrow> 0 | Some n \<Rightarrow> n)"

text \<open>The descending sort is modelled as a stable one; Polars leaves the order of ties open.\<close>

definition revenue_per_article_per_country :: "frame \<Rightarrow> string \<Rightarrow> (string option \<times> rat) list" where
  "revenue_per_article_per_country df country =
     take 15
       (sort_key (\<lambda>g. - snd g)
          (group_by_sum Description revenue_val
             (filter (\<lambda>r. Country r = Some country) (sales_only df))))"

text \<open>
  \<open>EmptyDatasetError\<close> is the error the specification names for a zero denominator; no
  function of the source raises it.
\<close>

datatype error = ZeroDivisionError | OverflowError | EmptyDatasetError








text \<open>\<^verbatim>\<open>sort("Date")\<close> puts the null key first.\<close>

definition get_country_quantity :: "frame \<Rightarrow> string \<Rightarrow> string \<Rightarrow> (date option \<times> 64 word) list" where
  "get_country_quantity df country product =
     sort_key fst
       (group_by_sum Date quantity_val
          (filter (\<lambda>r. Country r = Some country \<and> Description r = Some product) (sales_only df)))"

text \<open>
  \<^verbatim>\<open>is_in\<close> on a null value is null (the row goes) where nulls do not compare equal, the
  default of current Polars; where they do, a null is in a list that holds a null. The
  model takes the choice as \<open>nulls_equal\<close>.
\<close>

definition is_in :: "bool \<Rightarrow> 'a option \<Rightarrow> 'a option list \<Rightarrow> bool" where
  "is_in nulls_equal v vs = ((v \<noteq> None \<or> nulls_equal) \<and> v \<in> set vs)"

text \<open>The rows the global series is grouped from.\<close>

definition global_rows :: "bool \<Rightarrow> frame \<Rightarrow> string \<Rightarrow> string \<Rightarrow> frame" where
  "global_rows nulls_equal df country product =
     (let country_set = country;
          country_df = get_country_quantity df country product;
          country_dates = map fst country_df
      in filter (\<lambda>r. Country r \<noteq> None \<and> Country r \<noteq> Some country_set
                    \<and> Description r = Some product \<and> is_in nulls_equal (Date r) country_dates)
           (sales_only df))"

definition get_global_quantity :: "bool \<Rightarrow> frame \<Rightarrow> string \<Rightarrow> string \<Rightarrow> (date option \<times> 64 word) list" where
  "get_global_quantity nulls_equal df country product =
     sort_key fst (group_by_sum Date quantity_val (global_rows nulls_equal df country product))"

section \<open>The time-series frame of the dashboard: \<^verbatim>\<open>Dashboard.plot_article_timeseries\<close>\<close>

definition to_datetime_safe :: "date option \<Rightarrow> datetime" where
  "to_datetime_safe val =
     (case val of None \<Rightarrow> ymd2ord 2000 1 1 * usec_per_day | Some d \<Rightarrow> d * usec_per_day)"

text \<open>\<^verbatim>\<open>min(xs) if xs else dflt\<close>, and the same for \<^verbatim>\<open>max\<close>.\<close>

fun list_min :: "'a::linorder \<Rightarrow> 'a list \<Rightarrow> 'a" where
  "list_min dflt [] = dflt"
| "list_min dflt (x # xs) = fold min xs x"

fun list_max :: "'a::linorder \<Rightarrow> 'a list \<Rightarrow> 'a" where
  "list_max dflt [] = dflt"
| "list_max dflt (x # xs) = fold max xs x"

text \<open>\<^verbatim>\<open>(a - b).days\<close>: a \<^verbatim>\<open>timedelta\<close> is normalised, its days are the floor.\<close>

definition delta_days :: "datetime \<Rightarrow> datetime \<Rightarrow> int" where
  "delta_days a b = (a - b) div usec_per_day"

text \<open>
  \<^verbatim>\<open>int(days * 0.1)\<close> truncates towards zero. The product is a double in the source and
  exact here; the two have the same integer part for every day count a \<^verbatim>\<open>timedelta\<close>
  can hold.
\<close>

definition int_tenth :: "int \<Rightarrow> int" where
  "int_tenth n = (if 0 \<le> n then n div 10 else - ((- n) div 10))"

text \<open>\<^verbatim>\<open>datetime + timedelta(days=n)\<close>: \<^verbatim>\<open>OverflowError\<close> outside the years 1 to 9999.\<close>

definition add_days :: "datetime \<Rightarrow> int \<Rightarrow> error + datetime" where
  "add_days t n =
     (let t' = t + n * usec_per_day
      in if 1 \<le> date_of t' \<and> date_of t' \<le> ymd2ord 9999 12 31 then Inr t' else Inl OverflowError)"

record timeseries =
  country_dates :: "datetime list"
  country_qty :: "int list"
  global_dates :: "datetime list"
  global_qty :: "int list"
  first_date :: datetime
  extended_date :: datetime
  y_max :: int

text \<open>\<open>today\<close> is what \<^verbatim>\<open>datetime.today()\<close> returns when the function runs.\<close>

definition plot_article_timeseries ::
  "datetime \<Rightarrow> bool \<Rightarrow> frame \<Rightarrow> string \<Rightarrow> string \<Rightarrow> error + timeseries" where
  "plot_article_timeseries today nulls_equal df country product =
     (let country_df = get_country_quantity df country product;
          global_df = get_global_quantity nulls_equal df country product;
          cdates = map (to_datetime_safe \<circ> fst) country_df;
          cqty = map (sint \<circ> snd) country_df;
          gdates = map (to_datetime_safe \<circ> fst) global_df;
          gqty = map (sint \<circ> snd) global_df;
          all_dates = cdates @ gdates;
          first = list_min today all_dates;
          last = list_max today all_dates
      in case add_days last (int_tenth (delta_days last first)) of
           Inl e \<Rightarrow> Inl e
         | Inr extended \<Rightarrow>
             Inr \<lparr>country_dates = cdates, country_qty = cqty,
                  global_dates = gdates, global_qty = gqty,
                  first_date = first, extended_date = extended,
                  y_max = list_max 0 (cqty @ gqty)\<rparr>)"

text \<open>
  The extended upper bound in the words of the specification, to compare the frame with:
  the last date plus a tenth of the span from the first date to the last, as an instant
  in microseconds.
\<close>

definition spec_extended_date :: "datetime \<Rightarrow> datetime \<Rightarrow> rat" where
  "spec_extended_date earliest latest =
     of_int latest + (1 / 10) * (of_int latest - of_int earliest)"

text \<open>The row of the base table that a scanned row without nulls gives.\<close>

definition loaded_row :: "(string \<Rightarrow> string \<Rightarrow> datetime option) \<Rightarrow> raw_row \<Rightarrow> row" where
  "loaded_row sp w =
     with_revenue (with_dates w (parse_date sp (InvoiceDate w))
       (map_option date_of (parse_date sp (InvoiceDate w))))"

section \<open>Example inputs\<close>

text \<open>A scanned row all of whose fields are present.\<close>

definition scanned_row ::
  "string \<Rightarrow> string \<Rightarrow> string \<Rightarrow> int \<Rightarrow> string \<Rightarrow> rat \<Rightarrow> string \<Rightarrow> string \<Rightarrow> raw_row" where
  "scanned_row invoice code descr qty stamp price cust ctry =
     \<lparr>InvoiceNo = Some invoice, StockCode = Some code, Description = Some descr,
      Quantity = Some (word_of_int qty), InvoiceDate = Some stamp, UnitPrice = Some price,
      CustomerID = Some cust, Country = Some ctry\<rparr>"

text \<open>
  A small file: a sale that a return reverses, a sale that stays, the return, a sale with
  a timestamp in no known format, a sale of another country, and a row without customer.
\<close>

definition shop_scan :: "raw_row list" where
  "shop_scan =
     [scanned_row ''1001'' ''A'' ''Widget'' 3 ''12/1/2010 8:26'' 2 ''17850'' ''France'',
      scanned_row ''1002'' ''A'' ''Widget'' 2 ''2010-12-06 09:00:00'' 2 ''17850'' ''France'',
      scanned_row ''C1001'' ''A'' ''Widget'' (- 3) ''12/7/2010 10:00'' 2 ''17850'' ''France'',
      scanned_row ''1003'' ''A'' ''Widget'' 5 ''not-a-date'' 2 ''17851'' ''France'',
      scanned_row ''1004'' ''A'' ''Widget'' 7 ''12/6/2010 11:00'' 2 ''13000'' ''Germany'',
      (scanned_row ''1005'' ''B'' ''Gadget'' 1 ''12/8/2010 8:00'' 4 ''0'' ''France'')
        \<lparr>CustomerID := None\<rparr>]"

text \<open>Two lines of one invoice: they carry the same timestamp.\<close>

definition invoice_scan :: "raw_row list" where
  "invoice_scan =
     [scanned_row ''1001'' ''A'' ''Widget'' 3 ''12/1/2010 8:26'' 2 ''17850'' ''France'',
      scanned_row ''1001'' ''B'' ''Gadget'' 2 ''12/1/2010 8:26'' 4 ''17850'' ''France'']"

text \<open>Two sales of one article, five days apart.\<close>

definition five_days_scan :: "raw_row list" where
  "five_days_scan =
     [scanned_row ''1001'' ''A'' ''Widget'' 3 ''12/1/2010 8:26'' 2 ''17850'' ''France'',
      scanned_row ''1002'' ''A'' ''Widget'' 4 ''12/6/2010 9:00'' 2 ''17850'' ''France'']"




section \<open>The shape of the base table\<close>

lemma dates_df_map:
  "dates_df sp vs = map (\<lambda>v. (v, parse_date sp v, map_option date_of (parse_date sp v))) vs"
  by (induction vs) (simp_all add: dates_df_def Let_def)

lemma filter_map_key:
  "filter (\<lambda>d. fst d = k) (map (\<lambda>v. (v, f v)) vs) = replicate (count_list vs k) (k, f k)"
  by (induction vs) auto

lemma count_list_pos: "x \<in> set xs \<Longrightarrow> 0 < count_list xs x"
  by (induction xs) auto

text \<open>
  A left row whose timestamp occurs \<open>n\<close> times among the timestamps finds \<open>n\<close> partners,
  all of them with the same parsed columns.
\<close>

lemma join_one_row:
  assumes "InvoiceDate l \<noteq> None" and "InvoiceDate l \<in> set vs"
  shows "map with_revenue
           (case filter (\<lambda>d. InvoiceDate l \<noteq> None \<and> fst d = InvoiceDate l) (dates_df sp vs) of
              [] \<Rightarrow> [with_dates l None None]
            | ms \<Rightarrow> map (\<lambda>(k, dt, d). with_dates l dt d) ms)
         = replicate (count_list vs (InvoiceDate l)) (loaded_row sp l)"
proof -
  let ?n = "count_list vs (InvoiceDate l)"
  let ?x = "(InvoiceDate l, parse_date sp (InvoiceDate l),
             map_option date_of (parse_date sp (InvoiceDate l)))"
  have f: "filter (\<lambda>d. InvoiceDate l \<noteq> None \<and> fst d = InvoiceDate l) (dates_df sp vs)
             = replicate ?n ?x"
    using assms(1) by (simp add: dates_df_map filter_map_key)
  from assms(2) have "0 < ?n" by (rule count_list_pos)
  then obtain m where n: "?n = Suc m" by (cases ?n) auto
  show ?thesis
    unfolding f by (simp add: n loaded_row_def)
qed

lemma read_csv_replicate:
  "read_csv sp scanned =
     concat (map (\<lambda>w. replicate (count_list (map InvoiceDate (drop_nulls scanned)) (InvoiceDate w))
                         (loaded_row sp w)) (drop_nulls scanned))"
proof -
  have "\<And>w. w \<in> set (drop_nulls scanned) \<Longrightarrow> InvoiceDate w \<noteq> None"
    by (simp add: drop_nulls_def no_nulls_def)
  then show ?thesis
    unfolding read_csv_def Let_def left_join_def map_concat map_map comp_def
    by (intro arg_cong[where f=concat] map_cong refl join_one_row) auto
qed

lemma set_read_csv:
  "set (read_csv sp scanned) = loaded_row sp ` {w \<in> set scanned. no_nulls w}"
proof -
  have "\<And>w. w \<in> set (drop_nulls scanned) \<Longrightarrow>
      0 < count_list (map InvoiceDate (drop_nulls scanned)) (InvoiceDate w)"
    by (rule count_list_pos) simp
  then show ?thesis
    unfolding read_csv_replicate by (auto simp: drop_nulls_def)
qed

lemma loaded_row_fields [simp]:
  "InvoiceNo (loaded_row sp w) = InvoiceNo w"
  "StockCode (loaded_row sp w) = StockCode w"
  "Description (loaded_row sp w) = Description w"
  "Quantity (loaded_row sp w) = Quantity w"
  "InvoiceDate (loaded_row sp w) = InvoiceDate w"
  "UnitPrice (loaded_row sp w) = UnitPrice w"
  "CustomerID (loaded_row sp w) = CustomerID w"
  "Country (loaded_row sp w) = Country w"
  "DateTime (loaded_row sp w) = parse_date sp (InvoiceDate w)"
  "Date (loaded_row sp w) = map_option date_of (parse_date sp (InvoiceDate w))"
  "Revenue (loaded_row sp w) = mul_revenue (Quantity w) (UnitPrice w)"
  by (simp_all add: loaded_row_def with_revenue_def with_dates_def)

lemma truncate_loaded_row: "raw_row.truncate (loaded_row sp w) = w"
  by (simp add: raw_row.truncate_def loaded_row_def with_revenue_def with_dates_def)

lemma read_csv_no_nulls:
  "r \<in> set (read_csv sp scanned) \<Longrightarrow>
     InvoiceNo r \<noteq> None \<and> StockCode r \<noteq> None \<and> Description r \<noteq> None \<and> Quantity r \<noteq> None
     \<and> InvoiceDate r \<noteq> None \<and> UnitPrice r \<noteq> None \<and> CustomerID r \<noteq> None \<and> Country r \<noteq> None"
  by (auto simp: set_read_csv no_nulls_def)

text \<open>
  When the timestamps of the kept rows are pairwise different, the base table has one row
  for each of them, in their order.
\<close>

lemma count_list_distinct: "distinct xs \<Longrightarrow> x \<in> set xs \<Longrightarrow> count_list xs x = 1"
  by (induction xs) (auto simp: count_list_0_iff)

lemma read_csv_distinct_timestamps:
  assumes "distinct (map InvoiceDate (drop_nulls scanned))"
  shows "read_csv sp scanned = map (loaded_row sp) (drop_nulls scanned)"
proof -
  have "\<And>w. w \<in> set (drop_nulls scanned) \<Longrightarrow>
      count_list (map InvoiceDate (drop_nulls scanned)) (InvoiceDate w) = 1"
    using assms by (intro count_list_distinct) auto
  then have eq: "map (\<lambda>w. replicate (count_list (map InvoiceDate (drop_nulls scanned)) (InvoiceDate w))
                         (loaded_row sp w)) (drop_nulls scanned)
           = map (\<lambda>w. [loaded_row sp w]) (drop_nulls scanned)"
    by (intro map_cong refl) simp
  show ?thesis
    unfolding read_csv_replicate eq by (rule concat_map_singleton)
qed

section \<open>Returns and sales on rows without nulls\<close>

lemma is_return_iff: "is_return r \<longleftrightarrow> (\<exists>s. InvoiceNo r = Some (CHR ''C'' # s))"
proof (cases "InvoiceNo r")
  case None
  then show ?thesis by (simp add: is_return_def)
next
  case (Some s)
  then show ?thesis
    by (cases s) (simp_all add: is_return_def starts_with_def)
qed

lemma not_return_iff: "InvoiceNo r \<noteq> None \<Longrightarrow> not_return r \<longleftrightarrow> \<not> is_return r"
  by (auto simp: not_return_def is_return_def)

lemma replace_C_return:
  "is_return r \<Longrightarrow> map_option replace_C (InvoiceNo r) = map_option tl (InvoiceNo r)"
  by (auto simp: is_return_iff replace_C_def)

lemma returns_only_tl:
  "returns_only df =
     map (\<lambda>r. (map_option tl (InvoiceNo r), StockCode r, CustomerID r)) (filter is_return df)"
  unfolding returns_only_def by (rule map_cong) (auto simp: replace_C_return)

lemma join_match_eq:
  "InvoiceNo l \<noteq> None \<Longrightarrow> StockCode l \<noteq> None \<Longrightarrow> CustomerID l \<noteq> None \<Longrightarrow>
     join_match l k \<longleftrightarrow> (InvoiceNo l, StockCode l, CustomerID l) = k"
  by (cases k) (auto simp: join_match_def key_eq_def)

section \<open>Grouping and sorting\<close>

lemma keys_group_by_sum: "map fst (group_by_sum key val rs) = remdups (map key rs)"
  by (simp add: group_by_sum_def comp_def)

lemma in_group_by_sum:
  "(k, v) \<in> set (group_by_sum key val rs) \<longleftrightarrow>
     k \<in> key ` set rs \<and> v = sum_list (map val (filter (\<lambda>r. key r = k) rs))"
  by (auto simp: group_by_sum_def)

lemma distinct_keys_sort_key:
  "distinct (map fst xs) \<Longrightarrow> distinct (map fst (sort_key f xs))"
  by (simp add: distinct_map)


section \<open>Two decimals\<close>






section \<open>Minimum and maximum of a list\<close>

lemma list_min_Min: "xs \<noteq> [] \<Longrightarrow> list_min dflt xs = Min (set xs)"
  by (cases xs) (simp_all add: Min.set_eq_fold [symmetric])

lemma list_max_Max: "xs \<noteq> [] \<Longrightarrow> list_max dflt xs = Max (set xs)"
  by (cases xs) (simp_all add: Max.set_eq_fold [symmetric])

lemma Min_le_Max_list: "xs \<noteq> [] \<Longrightarrow> Min (set xs) \<le> Max (set xs)"
proof -
  assume "xs \<noteq> []"
  then have "hd xs \<in> set xs" by simp
  then have "Min (set xs) \<le> hd xs" "hd xs \<le> Max (set xs)" by simp_all
  then show ?thesis by (rule order_trans)
qed


section \<open>Load\<close>

text \<open>
  Claim C10. After the load every row of the base table has a value in each of the eight
  input columns, the customer identifier included: the rows of the base table, cut back to
  their input columns, are exactly the scanned rows without a null. So every row of the
  sales view and every row of the returns set has a customer identifier too.
\<close>

theorem load_drops_rows_with_nulls:
  "(\<forall>r\<in>set (read_csv sp scanned).
       InvoiceNo r \<noteq> None \<and> StockCode r \<noteq> None \<and> Description r \<noteq> None \<and> Quantity r \<noteq> None
       \<and> InvoiceDate r \<noteq> None \<and> UnitPrice r \<noteq> None \<and> CustomerID r \<noteq> None \<and> Country r \<noteq> None)
   \<and> raw_row.truncate ` set (read_csv sp scanned) = set (drop_nulls scanned)
   \<and> (\<forall>r\<in>set (sales_only (read_csv sp scanned)). CustomerID r \<noteq> None)
   \<and> (\<forall>k\<in>set (returns_only (read_csv sp scanned)). snd (snd k) \<noteq> None)"
proof (intro conjI ballI)
  fix r assume "r \<in> set (read_csv sp scanned)"
  then show "InvoiceNo r \<noteq> None" "StockCode r \<noteq> None" "Description r \<noteq> None"
    "Quantity r \<noteq> None" "InvoiceDate r \<noteq> None" "UnitPrice r \<noteq> None"
    "CustomerID r \<noteq> None" "Country r \<noteq> None"
    using read_csv_no_nulls by blast+
next
  show "raw_row.truncate ` set (read_csv sp scanned) = set (drop_nulls scanned)"
    by (simp add: set_read_csv image_image truncate_loaded_row drop_nulls_def)
next
  fix r assume "r \<in> set (sales_only (read_csv sp scanned))"
  then have "r \<in> set (read_csv sp scanned)" by (simp add: sales_only_def)
  then show "CustomerID r \<noteq> None" using read_csv_no_nulls by blast
next
  fix k assume "k \<in> set (returns_only (read_csv sp scanned))"
  then obtain r where "r \<in> set (read_csv sp scanned)" and "snd (snd k) = CustomerID r"
    by (auto simp: returns_only_def)
  then show "snd (snd k) \<noteq> None" using read_csv_no_nulls by metis
qed

theorem load_drops_rows_with_nulls_witness:
  "length shop_scan = 6 \<and> length (read_csv strptime shop_scan) = 5
   \<and> CustomerID (shop_scan ! 5) = None
   \<and> CustomerID (hd (read_csv strptime shop_scan)) \<noteq> None
   \<and> InvoiceNo (hd (sales_only (read_csv strptime shop_scan))) = Some ''1002''
   \<and> CustomerID (hd (sales_only (read_csv strptime shop_scan))) \<noteq> None
   \<and> snd (snd (hd (returns_only (read_csv strptime shop_scan)))) \<noteq> None"
proof -
  have a: "hd (read_csv strptime shop_scan) \<in> set (read_csv strptime shop_scan)"
    by code_simp
  have b: "hd (sales_only (read_csv strptime shop_scan))
             \<in> set (sales_only (read_csv strptime shop_scan))"
    by code_simp
  have c: "hd (returns_only (read_csv strptime shop_scan))
             \<in> set (returns_only (read_csv strptime shop_scan))"
    by code_simp
  have d: "length shop_scan = 6" "length (read_csv strptime shop_scan) = 5"
    "CustomerID (shop_scan ! 5) = None"
    "InvoiceNo (hd (sales_only (read_csv strptime shop_scan))) = Some ''1002''"
    by code_simp+
  from load_drops_rows_with_nulls [of strptime shop_scan] a b c d show ?thesis
    by blast
qed

text \<open>
  Claim C7. A timestamp is tried against the two formats in their fixed order, and the
  first format that parses gives the \<^verbatim>\<open>DateTime\<close>. Every scanned row without nulls is kept
  in the base table; each row of the base table carries the parse of its own timestamp,
  and its \<^verbatim>\<open>Date\<close> is the date of that; when no format parses, both are null, and the row
  is there all the same.
\<close>

theorem date_parsing_first_match_wins:
  "parse_date sp (Some val) =
     (case sp val ''%m/%d/%Y %H:%M'' of Some dt \<Rightarrow> Some dt
      | None \<Rightarrow> sp val ''%Y-%m-%d %H:%M:%S'')
   \<and> (\<forall>w\<in>set scanned. no_nulls w \<longrightarrow>
         (\<exists>r\<in>set (read_csv sp scanned). raw_row.truncate r = w))
   \<and> (\<forall>r\<in>set (read_csv sp scanned).
         DateTime r = parse_date sp (InvoiceDate r) \<and> Date r = map_option date_of (DateTime r)
         \<and> (\<forall>stamp. InvoiceDate r = Some stamp \<and> (\<forall>fmt\<in>set formats. sp stamp fmt = None)
               \<longrightarrow> DateTime r = None \<and> Date r = None))"
proof (intro conjI ballI impI allI)
  show "parse_date sp (Some val) =
     (case sp val ''%m/%d/%Y %H:%M'' of Some dt \<Rightarrow> Some dt
      | None \<Rightarrow> sp val ''%Y-%m-%d %H:%M:%S'')"
    by (simp add: parse_date_def formats_def split: option.splits)
next
  fix w assume "w \<in> set scanned" "no_nulls w"
  then have "loaded_row sp w \<in> set (read_csv sp scanned)" by (simp add: set_read_csv)
  then show "\<exists>r\<in>set (read_csv sp scanned). raw_row.truncate r = w"
    using truncate_loaded_row by blast
next
  fix r assume r: "r \<in> set (read_csv sp scanned)"
  then obtain w where w: "r = loaded_row sp w" by (auto simp: set_read_csv)
  show "DateTime r = parse_date sp (InvoiceDate r)" "Date r = map_option date_of (DateTime r)"
    by (simp_all add: w)
  fix stamp assume s: "InvoiceDate r = Some stamp \<and> (\<forall>fmt\<in>set formats. sp stamp fmt = None)"
  then have "parse_date sp (InvoiceDate r) = None"
    by (simp add: parse_date_def formats_def)
  then show "DateTime r = None" "Date r = None" by (simp_all add: w)
qed

theorem date_parsing_first_match_wins_witness:
  "parse_date strptime (Some ''12/1/2010 8:26'') = strptime ''12/1/2010 8:26'' ''%m/%d/%Y %H:%M''
   \<and> strptime ''12/1/2010 8:26'' ''%m/%d/%Y %H:%M'' = Some (734107 * usec_per_day + 30360000000)
   \<and> strptime ''2010-12-06 09:00:00'' ''%m/%d/%Y %H:%M'' = None
   \<and> parse_date strptime (Some ''2010-12-06 09:00:00'') = Some (734112 * usec_per_day + 32400000000)
   \<and> no_nulls (shop_scan ! 3)
   \<and> InvoiceDate (read_csv strptime shop_scan ! 3) = Some ''not-a-date''
   \<and> raw_row.truncate (read_csv strptime shop_scan ! 3) = shop_scan ! 3
   \<and> DateTime (read_csv strptime shop_scan ! 3) = None
   \<and> Date (read_csv strptime shop_scan ! 3) = None"
proof -
  have a: "strptime ''12/1/2010 8:26'' ''%m/%d/%Y %H:%M'' = Some (734107 * usec_per_day + 30360000000)"
    "strptime ''2010-12-06 09:00:00'' ''%m/%d/%Y %H:%M'' = None"
    "strptime ''2010-12-06 09:00:00'' ''%Y-%m-%d %H:%M:%S''
       = Some (734112 * usec_per_day + 32400000000)"
    by code_simp+
  have b: "read_csv strptime shop_scan ! 3 \<in> set (read_csv strptime shop_scan)"
    "InvoiceDate (read_csv strptime shop_scan ! 3) = Some ''not-a-date''"
    "\<forall>fmt\<in>set formats. strptime ''not-a-date'' fmt = None"
    "no_nulls (shop_scan ! 3)"
    "raw_row.truncate (read_csv strptime shop_scan ! 3) = shop_scan ! 3"
    by code_simp+
  note t = date_parsing_first_match_wins [of strptime _ shop_scan]
  have c: "parse_date strptime (Some ''12/1/2010 8:26'')
             = strptime ''12/1/2010 8:26'' ''%m/%d/%Y %H:%M''"
    using t [of "''12/1/2010 8:26''"] a by simp
  have d: "parse_date strptime (Some ''2010-12-06 09:00:00'')
             = Some (734112 * usec_per_day + 32400000000)"
    using t [of "''2010-12-06 09:00:00''"] a by simp
  have e: "DateTime (read_csv strptime shop_scan ! 3) = None
             \<and> Date (read_csv strptime shop_scan ! 3) = None"
    using t [of "''x''"] b by blast
  from a b c d e show ?thesis by blast
qed

text \<open>
  Claim C4. The load should give one row of the base table for each scanned row it keeps.
  It does not: the parsed columns are attached by a join on the raw timestamp against a
  table that has one row per kept row, so a timestamp that \<open>n\<close> kept rows share gives each
  of them \<open>n\<close> copies. On the two lines of one invoice the base table has four rows, and
  the revenue of each article comes out doubled.
\<close>

theorem join_on_timestamp_duplicates_rows:
  "length (drop_nulls invoice_scan) = 2
   \<and> length (read_csv strptime invoice_scan) = 4
   \<and> read_csv strptime invoice_scan =
       [loaded_row strptime (invoice_scan ! 0), loaded_row strptime (invoice_scan ! 0),
        loaded_row strptime (invoice_scan ! 1), loaded_row strptime (invoice_scan ! 1)]
   \<and> revenue_per_article_per_country (read_csv strptime invoice_scan) ''France''
       = [(Some ''Gadget'', 16), (Some ''Widget'', 12)]"
  by code_simp


section \<open>Returns and sales\<close>

text \<open>
  Claim C1. On a loaded dataset a row is a return exactly when its invoice identifier
  starts with \<^verbatim>\<open>C\<close>; the returns set holds, for each return, the identifier without the
  marker, the stock code and the customer; the sales view is the base table filtered, in
  its order and with whole rows, to the rows that are no return and whose invoice, stock
  code and customer are the triple of no return; and no row of the sales view has its
  triple in the returns set.
\<close>

theorem sales_are_antijoin_of_returns:
  assumes "df = read_csv sp scanned"
  shows "(\<forall>r\<in>set df. is_return r \<longleftrightarrow> (\<exists>s. InvoiceNo r = Some (CHR ''C'' # s)))
    \<and> returns_only df =
        map (\<lambda>r. (map_option tl (InvoiceNo r), StockCode r, CustomerID r)) (filter is_return df)
    \<and> sales_only df =
        filter (\<lambda>r. \<not> is_return r
                  \<and> \<not> (\<exists>q\<in>set df. is_return q
                        \<and> (map_option tl (InvoiceNo q), StockCode q, CustomerID q)
                            = (InvoiceNo r, StockCode r, CustomerID r))) df
    \<and> (\<forall>r\<in>set (sales_only df).
          (InvoiceNo r, StockCode r, CustomerID r) \<notin> set (returns_only df))"
proof -
  have nn: "\<And>r. r \<in> set df \<Longrightarrow>
      InvoiceNo r \<noteq> None \<and> StockCode r \<noteq> None \<and> CustomerID r \<noteq> None"
    unfolding assms using read_csv_no_nulls by blast
  have ex: "\<And>r. r \<in> set df \<Longrightarrow>
      list_ex (join_match r) (returns_only df) \<longleftrightarrow>
        (InvoiceNo r, StockCode r, CustomerID r) \<in> set (returns_only df)"
    by (simp add: list_ex_iff join_match_eq nn)
  have mem: "\<And>k. k \<in> set (returns_only df) \<longleftrightarrow>
      (\<exists>q\<in>set df. is_return q \<and> (map_option tl (InvoiceNo q), StockCode q, CustomerID q) = k)"
    by (auto simp: returns_only_tl)
  have sales: "sales_only df =
      filter (\<lambda>r. \<not> is_return r \<and> (InvoiceNo r, StockCode r, CustomerID r) \<notin> set (returns_only df)) df"
    unfolding sales_only_def filter_filter
    by (rule filter_cong) (auto simp: ex not_return_iff nn)
  have "sales_only df =
        filter (\<lambda>r. \<not> is_return r
                  \<and> \<not> (\<exists>q\<in>set df. is_return q
                        \<and> (map_option tl (InvoiceNo q), StockCode q, CustomerID q)
                            = (InvoiceNo r, StockCode r, CustomerID r))) df"
    unfolding sales by (simp only: mem)
  moreover have "\<forall>r\<in>set (sales_only df).
          (InvoiceNo r, StockCode r, CustomerID r) \<notin> set (returns_only df)"
    unfolding sales by simp
  ultimately show ?thesis
    using is_return_iff returns_only_tl by blast
qed

theorem sales_are_antijoin_of_returns_witness:
  "is_return (read_csv strptime shop_scan ! 2)
   \<and> InvoiceNo (read_csv strptime shop_scan ! 2) = Some ''C1001''
   \<and> \<not> is_return (read_csv strptime shop_scan ! 0)
   \<and> returns_only (read_csv strptime shop_scan) = [(Some ''1001'', Some ''A'', Some ''17850'')]
   \<and> sales_only (read_csv strptime shop_scan) =
       [read_csv strptime shop_scan ! 1, read_csv strptime shop_scan ! 3,
        read_csv strptime shop_scan ! 4]
   \<and> (InvoiceNo (read_csv strptime shop_scan ! 1), StockCode (read_csv strptime shop_scan ! 1),
        CustomerID (read_csv strptime shop_scan ! 1)) = (Some ''1002'', Some ''A'', Some ''17850'')
   \<and> (Some ''1002'', Some ''A'', Some ''17850'') \<notin> set (returns_only (read_csv strptime shop_scan))"
proof -
  let ?df = "read_csv strptime shop_scan"
  note t = sales_are_antijoin_of_returns [OF refl, of strptime shop_scan]
  have a: "?df ! 2 \<in> set ?df" "?df ! 0 \<in> set ?df"
    "InvoiceNo (?df ! 2) = Some ''C1001''" "InvoiceNo (?df ! 0) = Some ''1001''"
    by code_simp+
  have b: "is_return (?df ! 2)" "\<not> is_return (?df ! 0)"
    using t a by auto
  have c: "returns_only ?df = [(Some ''1001'', Some ''A'', Some ''17850'')]"
    "sales_only ?df = [?df ! 1, ?df ! 3, ?df ! 4]"
    "?df ! 1 \<in> set (sales_only ?df)"
    "(InvoiceNo (?df ! 1), StockCode (?df ! 1), CustomerID (?df ! 1))
       = (Some ''1002'', Some ''A'', Some ''17850'')"
    by code_simp+
  have d: "(InvoiceNo (?df ! 1), StockCode (?df ! 1), CustomerID (?df ! 1))
             \<notin> set (returns_only ?df)"
    using t c(3) by blast
  from a b c d show ?thesis by metis
qed

section \<open>Aggregates\<close>

text \<open>
  Claim C5. For every country the top-revenue query returns at most 15 rows, in
  non-increasing order of revenue, no description twice; every description returned is the
  description of a sales-only row of that country, and its revenue is the sum of the
  revenue of the sales-only rows of that country with that description.
\<close>

theorem top_revenue_by_article:
  assumes "rs = filter (\<lambda>r. Country r = Some country) (sales_only df)"
    and "res = revenue_per_article_per_country df country"
  shows "length res \<le> 15
    \<and> sorted_wrt (\<ge>) (map snd res)
    \<and> distinct (map fst res)
    \<and> (\<forall>(d, v)\<in>set res.
          (\<exists>r\<in>set rs. Description r = d)
          \<and> v = sum_list (map revenue_val (filter (\<lambda>r. Description r = d) rs)))"
proof -
  let ?g = "group_by_sum Description revenue_val rs"
  let ?s = "sort_key (\<lambda>g. - snd g) ?g"
  have res: "res = take 15 ?s"
    by (simp add: assms revenue_per_article_per_country_def)
  have "sorted (map (\<lambda>g. - snd g) ?s)" by (rule sorted_sort_key)
  then have "sorted_wrt (\<lambda>a b. - snd a \<le> - snd b) ?s"
    by (simp add: sorted_wrt_map)
  then have "sorted_wrt (\<lambda>a b. snd a \<ge> snd b) ?s" by simp
  then have "sorted_wrt (\<lambda>a b. snd a \<ge> snd b) (take 15 ?s)"
    by (rule sorted_wrt_take)
  then have s: "sorted_wrt (\<ge>) (map snd res)"
    by (simp add: res sorted_wrt_map)
  have "distinct (map fst ?g)" by (simp add: keys_group_by_sum)
  then have "distinct (map fst ?s)" by (rule distinct_keys_sort_key)
  then have d: "distinct (map fst res)"
    unfolding res take_map [symmetric] by (rule distinct_take)
  have sub: "set res \<subseteq> set ?g"
    unfolding res using set_take_subset [of 15 ?s] by simp
  have m: "\<forall>(d, v)\<in>set res.
          (\<exists>r\<in>set rs. Description r = d)
          \<and> v = sum_list (map revenue_val (filter (\<lambda>r. Description r = d) rs))"
  proof (clarify, rule conjI)
    fix d v assume "(d, v) \<in> set res"
    with sub have g: "(d, v) \<in> set ?g" by blast
    from g show "\<exists>r\<in>set rs. Description r = d"
      unfolding in_group_by_sum by blast
    from g show "v = sum_list (map revenue_val (filter (\<lambda>r. Description r = d) rs))"
      unfolding in_group_by_sum by blast
  qed
  have "length res \<le> 15" by (simp add: res)
  with s d m show ?thesis by blast
qed

theorem top_revenue_by_article_witness:
  "revenue_per_article_per_country (read_csv strptime shop_scan) ''France'' = [(Some ''Widget'', 14)]
   \<and> filter (\<lambda>r. Country r = Some ''France'') (sales_only (read_csv strptime shop_scan))
       = [read_csv strptime shop_scan ! 1, read_csv strptime shop_scan ! 3]
   \<and> Description (read_csv strptime shop_scan ! 1) = Some ''Widget''
   \<and> (14::rat) = sum_list (map revenue_val (filter (\<lambda>r. Description r = Some ''Widget'')
        (filter (\<lambda>r. Country r = Some ''France'') (sales_only (read_csv strptime shop_scan)))))"
proof -
  let ?df = "read_csv strptime shop_scan"
  have a: "revenue_per_article_per_country ?df ''France'' = [(Some ''Widget'', 14)]"
    "filter (\<lambda>r. Country r = Some ''France'') (sales_only ?df) = [?df ! 1, ?df ! 3]"
    "Description (?df ! 1) = Some ''Widget''"
    by code_simp+
  have "(Some ''Widget'', 14) \<in> set (revenue_per_article_per_country ?df ''France'')"
    by (simp add: a)
  with top_revenue_by_article [OF refl refl, of ?df "''France''"]
  have "(14::rat) = sum_list (map revenue_val (filter (\<lambda>r. Description r = Some ''Widget'')
        (filter (\<lambda>r. Country r = Some ''France'') (sales_only ?df))))"
    by blast
  with a show ?thesis by blast
qed


text \<open>
  Claim C2, as the code has it. The quantity series of a country and a product has one
  point for each value of \<^verbatim>\<open>Date\<close> among the sales-only rows of that country and product,
  the null date included as a group of its own; the points are in ascending order of date,
  the null one first; the quantity of a point is the Int64 sum of the quantities of
  the rows of that date. A row whose date is null is not left out: it is counted in the
  null point.
\<close>

theorem quantity_by_date_groups:
  assumes "rs = filter (\<lambda>r. Country r = Some country \<and> Description r = Some product) (sales_only df)"
    and "res = get_country_quantity df country product"
  shows "sorted (map fst res)
    \<and> distinct (map fst res)
    \<and> set (map fst res) = Date ` set rs
    \<and> (\<forall>(d, q)\<in>set res. q = sum_list (map quantity_val (filter (\<lambda>r. Date r = d) rs)))
    \<and> (None \<in> set (map fst res) \<longleftrightarrow> (\<exists>r\<in>set rs. Date r = None))"
proof -
  let ?g = "group_by_sum Date quantity_val rs"
  have res: "res = sort_key fst ?g"
    by (simp add: assms get_country_quantity_def)
  have s: "sorted (map fst res)"
    unfolding res by (rule sorted_sort_key)
  have "distinct (map fst ?g)" by (simp add: keys_group_by_sum)
  then have d: "distinct (map fst res)"
    unfolding res by (rule distinct_keys_sort_key)
  have "set (map fst res) = set (map fst ?g)" by (simp add: res)
  then have k: "set (map fst res) = Date ` set rs"
    by (simp add: keys_group_by_sum)
  have m: "\<forall>(d, q)\<in>set res. q = sum_list (map quantity_val (filter (\<lambda>r. Date r = d) rs))"
    by (auto simp: res in_group_by_sum)
  from k have n: "None \<in> set (map fst res) \<longleftrightarrow> (\<exists>r\<in>set rs. Date r = None)"
    by (metis (mono_tags, lifting) image_iff)
  from s d k m n show ?thesis by blast
qed

theorem quantity_by_date_groups_witness:
  "get_country_quantity (read_csv strptime shop_scan) ''France'' ''Widget''
     = [(None, 5), (Some 734112, 2)]
   \<and> filter (\<lambda>r. Country r = Some ''France'' \<and> Description r = Some ''Widget'')
        (sales_only (read_csv strptime shop_scan))
       = [read_csv strptime shop_scan ! 1, read_csv strptime shop_scan ! 3]
   \<and> Date (read_csv strptime shop_scan ! 3) = None
   \<and> (5 :: 64 word) = sum_list (map quantity_val (filter (\<lambda>r. Date r = None)
        (filter (\<lambda>r. Country r = Some ''France'' \<and> Description r = Some ''Widget'')
           (sales_only (read_csv strptime shop_scan)))))"
proof -
  let ?df = "read_csv strptime shop_scan"
  have a: "get_country_quantity ?df ''France'' ''Widget'' = [(None, 5), (Some 734112, 2)]"
    "filter (\<lambda>r. Country r = Some ''France'' \<and> Description r = Some ''Widget'') (sales_only ?df)
       = [?df ! 1, ?df ! 3]"
    "Date (?df ! 3) = None"
    by code_simp+
  have "(None, 5) \<in> set (get_country_quantity ?df ''France'' ''Widget'')"
    by (simp add: a)
  with quantity_by_date_groups [OF refl refl, of ?df "''France''" "''Widget''"]
  have "(5 :: 64 word) = sum_list (map quantity_val (filter (\<lambda>r. Date r = None)
        (filter (\<lambda>r. Country r = Some ''France'' \<and> Description r = Some ''Widget'')
           (sales_only ?df))))"
    by blast
  with a show ?thesis by blast
qed

text \<open>
  Against claim C2 as stated: the sale whose timestamp is \<^verbatim>\<open>not-a-date\<close> has a null date,
  is a sales-only row of France and Widget, and gives the series its first point, the
  null date with quantity 5.
\<close>

theorem null_date_row_gives_a_point:
  "InvoiceDate (read_csv strptime shop_scan ! 3) = Some ''not-a-date''
   \<and> Date (read_csv strptime shop_scan ! 3) = None
   \<and> Quantity (read_csv strptime shop_scan ! 3) = Some 5
   \<and> read_csv strptime shop_scan ! 3 \<in> set (sales_only (read_csv strptime shop_scan))
   \<and> hd (get_country_quantity (read_csv strptime shop_scan) ''France'' ''Widget'') = (None, 5)"
  by code_simp

text \<open>
  Claim C6. The dates of the global series are among the dates of the series of the
  country, for the same country and product; they are the dates of the rows the global
  series is grouped from, and each of these rows is a sales-only row of the product whose
  country is not the focal one.
\<close>

theorem global_dates_within_country_dates:
  "set (map fst (get_global_quantity nulls_equal df country product))
     \<subseteq> set (map fst (get_country_quantity df country product))
   \<and> set (map fst (get_global_quantity nulls_equal df country product))
       = Date ` set (global_rows nulls_equal df country product)
   \<and> (\<forall>r\<in>set (global_rows nulls_equal df country product).
         r \<in> set (sales_only df) \<and> Country r \<noteq> Some country \<and> Description r = Some product)"
proof -
  let ?rows = "global_rows nulls_equal df country product"
  have "set (map fst (get_global_quantity nulls_equal df country product))
          = set (map fst (group_by_sum Date quantity_val ?rows))"
    by (simp add: get_global_quantity_def)
  also have "\<dots> = Date ` set ?rows"
    unfolding keys_group_by_sum by simp
  finally have k: "set (map fst (get_global_quantity nulls_equal df country product))
          = Date ` set ?rows" .
  have r: "\<forall>r\<in>set ?rows. r \<in> set (sales_only df) \<and> Country r \<noteq> Some country
             \<and> Description r = Some product
             \<and> Date r \<in> set (map fst (get_country_quantity df country product))"
    by (simp add: global_rows_def is_in_def)
  from r have "Date ` set ?rows \<subseteq> set (map fst (get_country_quantity df country product))"
    by blast
  with k r show ?thesis by blast
qed

theorem global_dates_within_country_dates_witness:
  "get_global_quantity False (read_csv strptime shop_scan) ''France'' ''Widget'' = [(Some 734112, 7)]
   \<and> global_rows False (read_csv strptime shop_scan) ''France'' ''Widget''
       = [read_csv strptime shop_scan ! 4]
   \<and> Some 734112 \<in> set (map fst (get_country_quantity (read_csv strptime shop_scan) ''France'' ''Widget''))
   \<and> Country (read_csv strptime shop_scan ! 4) \<noteq> Some ''France''"
proof -
  let ?df = "read_csv strptime shop_scan"
  have a: "get_global_quantity False ?df ''France'' ''Widget'' = [(Some 734112, 7)]"
    "global_rows False ?df ''France'' ''Widget'' = [?df ! 4]"
    by code_simp+
  note t = global_dates_within_country_dates [of False ?df "''France''" "''Widget''"]
  have b: "Some 734112 \<in> set (map fst (get_country_quantity ?df ''France'' ''Widget''))"
    using t a(1) by auto
  have c: "Country (?df ! 4) \<noteq> Some ''France''"
    using t a(2) by auto
  from a b c show ?thesis by blast
qed

section \<open>Revenue share\<close>







section \<open>The time-series frame of the dashboard\<close>

text \<open>
  Claim C9, as the code has it. When the two series have a date between them, the first
  date of the frame is the earliest of their dates, and the extended upper bound is the
  latest date plus a whole number of days: a tenth of the number of whole days between the
  earliest and the latest date, cut to an integer. The frame is returned when that bound
  is a date of the years 1 to 9999, and an \<^verbatim>\<open>OverflowError\<close> is raised otherwise.
\<close>

theorem extended_date_is_whole_days:
  assumes "all_dates = map (to_datetime_safe \<circ> fst) (get_country_quantity df country product)
                     @ map (to_datetime_safe \<circ> fst) (get_global_quantity nulls_equal df country product)"
    and "all_dates \<noteq> []"
    and "bound = Max (set all_dates)
           + ((Max (set all_dates) - Min (set all_dates)) div usec_per_day div 10) * usec_per_day"
  shows "(1 \<le> date_of bound \<and> date_of bound \<le> ymd2ord 9999 12 31 \<longrightarrow>
            (\<exists>ts. plot_article_timeseries today nulls_equal df country product = Inr ts
                  \<and> first_date ts = Min (set all_dates) \<and> extended_date ts = bound))
    \<and> (\<not> (1 \<le> date_of bound \<and> date_of bound \<le> ymd2ord 9999 12 31) \<longrightarrow>
            plot_article_timeseries today nulls_equal df country product = Inl OverflowError)"
proof -
  let ?first = "Min (set all_dates)" and ?last = "Max (set all_dates)"
  have mn: "list_min today all_dates = ?first"
    using assms(2) by (rule list_min_Min)
  have mx: "list_max today all_dates = ?last"
    using assms(2) by (rule list_max_Max)
  have "?first \<le> ?last"
    using assms(2) by (simp add: Min_le_Max_list)
  then have "0 \<le> delta_days ?last ?first"
    by (simp add: delta_days_def usec_per_day_def pos_imp_zdiv_nonneg_iff)
  then have t: "int_tenth (delta_days ?last ?first) = (?last - ?first) div usec_per_day div 10"
    by (simp add: int_tenth_def delta_days_def)
  have a: "add_days ?last (int_tenth (delta_days ?last ?first)) =
             (if 1 \<le> date_of bound \<and> date_of bound \<le> ymd2ord 9999 12 31
              then Inr bound else Inl OverflowError)"
    unfolding t by (simp add: add_days_def Let_def assms(3))
  show ?thesis
    unfolding plot_article_timeseries_def Let_def assms(1) [symmetric] mn mx a
    by simp
qed

theorem extended_date_is_whole_days_witness:
  "map (to_datetime_safe \<circ> fst) (get_country_quantity (read_csv strptime shop_scan) ''France'' ''Widget'')
     @ map (to_datetime_safe \<circ> fst)
         (get_global_quantity False (read_csv strptime shop_scan) ''France'' ''Widget'')
     = [730120 * usec_per_day, 734112 * usec_per_day, 734112 * usec_per_day]
   \<and> date_of (734511 * usec_per_day) = 734511
   \<and> ymd2ord 9999 12 31 = 3652059
   \<and> map_sum id first_date
        (plot_article_timeseries 0 False (read_csv strptime shop_scan) ''France'' ''Widget'')
       = Inr (730120 * usec_per_day)
   \<and> map_sum id extended_date
        (plot_article_timeseries 0 False (read_csv strptime shop_scan) ''France'' ''Widget'')
       = Inr (734511 * usec_per_day)"
proof -
  let ?df = "read_csv strptime shop_scan"
  let ?ds = "[730120 * usec_per_day, 734112 * usec_per_day, 734112 * usec_per_day]"
  have a: "map (to_datetime_safe \<circ> fst) (get_country_quantity ?df ''France'' ''Widget'')
     @ map (to_datetime_safe \<circ> fst) (get_global_quantity False ?df ''France'' ''Widget'') = ?ds"
    by code_simp
  have b: "?ds \<noteq> []" by simp
  have c: "734511 * usec_per_day
      = Max (set ?ds) + ((Max (set ?ds) - Min (set ?ds)) div usec_per_day div 10) * usec_per_day"
    by (simp add: usec_per_day_def)
  have d: "date_of (734511 * usec_per_day) = 734511" "ymd2ord 9999 12 31 = 3652059"
    by code_simp+
  have e: "Min (set ?ds) = 730120 * usec_per_day"
    by (simp add: usec_per_day_def)
  from extended_date_is_whole_days [OF a [symmetric] b c, of 0] d e
  obtain ts where "plot_article_timeseries 0 False ?df ''France'' ''Widget'' = Inr ts"
    "first_date ts = 730120 * usec_per_day" "extended_date ts = 734511 * usec_per_day"
    by auto
  then show ?thesis using a d by simp
qed

text \<open>
  Against claim C9 as stated: two sales five days apart. The latest date plus a tenth of
  the span is the latest date plus twelve hours; the bound of the frame is the latest date
  itself.
\<close>

theorem half_day_extension_is_dropped:
  "plot_article_timeseries 0 False (read_csv strptime five_days_scan) ''France'' ''Widget'' =
     Inr \<lparr>country_dates = [734107 * usec_per_day, 734112 * usec_per_day], country_qty = [3, 4],
          global_dates = [], global_qty = [],
          first_date = 734107 * usec_per_day, extended_date = 734112 * usec_per_day,
          y_max = 4\<rparr>
   \<and> spec_extended_date (734107 * usec_per_day) (734112 * usec_per_day)
       = rat_of_int (734112 * usec_per_day + 43200000000)
   \<and> rat_of_int (734112 * usec_per_day)
       \<noteq> spec_extended_date (734107 * usec_per_day) (734112 * usec_per_day)"
  by code_simp


end
